theory Spec2Isabelle
  imports Complex_Main "HOL-Library.Sublist"
begin

section \<open>create-release-hub: the scaffolding command as HOL functions\<close>

text \<open>
  The program is one JavaScript module: three probes of the project
  (\<open>hasConfig\<close>, \<open>hasLib\<close>, \<open>detectPackageManager\<close>), an optional install
  subprocess, a sequence of terminal prompts that fills the \<open>config\<close> object, and one
  \<open>writeFile\<close>. The model keeps that shape. What the module reads from outside (the
  directory, the manifest, the environment, the child process, the answers typed at the
  prompts) is a parameter; what it does (log lines, the exit status, the file written) is
  the result.
\<close>

subsection \<open>JavaScript values\<close>

text \<open>
  The values the module handles are the results of \<open>JSON.parse\<close> and the object it
  builds for \<open>JSON.stringify\<close>. An object is an association list in insertion order, with
  one entry per key. Strings are character lists; the names the program compares are
  ASCII.
\<close>

datatype jsval =
    JUndefined
  | JNull
  | JBool bool
  | JNum real
  | JStr string
  | JArr "jsval list"
  | JObj "(string \<times> jsval) list"

text \<open>ToBoolean, as applied by \<open>if\<close>, \<open>!\<close>, \<open>||\<close> and \<open>Boolean(...)\<close>.\<close>

fun truthy :: "jsval \<Rightarrow> bool" where
  "truthy JUndefined = False"
| "truthy JNull = False"
| "truthy (JBool b) = b"
| "truthy (JNum r) = (r \<noteq> 0)"
| "truthy (JStr s) = (s \<noteq> [])"
| "truthy (JArr xs) = True"
| "truthy (JObj kvs) = True"

text \<open>\<open>a || b\<close>: the left operand when it is truthy, else the right one.\<close>

definition js_or :: "jsval \<Rightarrow> jsval \<Rightarrow> jsval" where
  "js_or a b = (if truthy a then a else b)"

text \<open>
  \<open>v[k]\<close> and \<open>v.k\<close>. Reading a member of \<open>null\<close> or \<open>undefined\<close> throws a TypeError,
  which is the result \<open>None\<close>. An object yields the value stored under the key and
  \<open>undefined\<close> when there is none. An array has \<open>length\<close>; a string, number or boolean
  has no member under the names read here. The program reads the members
  \<open>packageManager\<close>, \<open>release-hub\<close>, \<open>dependencies\<close>, \<open>devDependencies\<close> and \<open>size\<close>,
  none of which is inherited from a built-in prototype.
\<close>

fun member :: "jsval \<Rightarrow> string \<Rightarrow> jsval option" where
  "member JUndefined k = None"
| "member JNull k = None"
| "member (JObj kvs) k = Some (case map_of kvs k of Some v \<Rightarrow> v | None \<Rightarrow> JUndefined)"
| "member (JArr xs) k = Some (if k = ''length'' then JNum (real (length xs)) else JUndefined)"
| "member v k = Some JUndefined"

text \<open>\<open>v?.[k]\<close> and \<open>v?.k\<close>: \<open>undefined\<close> instead of the TypeError.\<close>

definition opt_member :: "jsval \<Rightarrow> string \<Rightarrow> jsval" where
  "opt_member v k = (case member v k of None \<Rightarrow> JUndefined | Some w \<Rightarrow> w)"

text \<open>
  ToNumber on the operands the program compares: \<open>None\<close> is NaN. The only comparison in
  the program is \<open>group.size < 2\<close>, whose left operand is a number or \<open>undefined\<close>;
  strings, arrays and objects are not converted here.
\<close>

fun to_number :: "jsval \<Rightarrow> real option" where
  "to_number JUndefined = None"
| "to_number JNull = Some 0"
| "to_number (JBool b) = Some (if b then 1 else 0)"
| "to_number (JNum r) = Some r"
| "to_number v = None"

text \<open>\<open>a < b\<close> on numbers: false as soon as one side is NaN.\<close>

definition js_less :: "jsval \<Rightarrow> jsval \<Rightarrow> bool" where
  "js_less a b = (case (to_number a, to_number b) of
                    (Some x, Some y) \<Rightarrow> x < y
                  | _ \<Rightarrow> False)"

text \<open>
  \<open>obj[k] = v\<close> on an object whose keys are not array indices: an existing key keeps its
  place and takes the new value, a new key goes last.
\<close>

fun obj_set :: "(string \<times> jsval) list \<Rightarrow> string \<Rightarrow> jsval \<Rightarrow> (string \<times> jsval) list" where
  "obj_set [] k v = [(k, v)]"
| "obj_set ((k', v') # kvs) k v =
     (if k' = k then (k, v) # kvs else (k', v') # obj_set kvs k v)"

text \<open>\<open>Object.fromEntries\<close>: the entries are stored from left to right.\<close>

definition fromEntries :: "(string \<times> jsval) list \<Rightarrow> (string \<times> jsval) list" where
  "fromEntries es = foldl (\<lambda>obj (k, v). obj_set obj k v) [] es"

text \<open>\<open>s.split("@")[0]\<close>: the part of the string before its first \<open>@\<close>, all of it when
  there is none.\<close>

definition before_at :: "string \<Rightarrow> string" where
  "before_at s = takeWhile (\<lambda>c. c \<noteq> CHR ''@'') s"

subsection \<open>Constants of the module\<close>

definition NAME :: string where
  "NAME = ''release-hub''"

definition CONFIG_SCHEMA_URL :: string where
  "CONFIG_SCHEMA_URL =
     ''https://cdn.jsdelivr.net/npm/release-hub@latest/schema/release-hub.schema.json''"

definition CONFIG_FILE :: string where
  "CONFIG_FILE = ''./.release-hub.json''"

text \<open>
  \<open>PACKAGE_INSTALL\<close> is an object literal, so a lookup finds one of its four own entries,
  or a member inherited from \<open>Object.prototype\<close>, or nothing.
\<close>

definition PACKAGE_INSTALL :: "(string \<times> string \<times> string list) list" where
  "PACKAGE_INSTALL =
     [(''npm'', ''npm'', [''i'', ''-D'', NAME]),
      (''yarn'', ''yarn'', [''add'', ''-D'', NAME]),
      (''pnpm'', ''pnpm'', [''add'', ''-D'', NAME]),
      (''bun'', ''bun'', [''i'', ''-D'', NAME])]"

definition object_prototype_names :: "string list" where
  "object_prototype_names =
     [''constructor'', ''__defineGetter__'', ''__defineSetter__'', ''hasOwnProperty'',
      ''__lookupGetter__'', ''__lookupSetter__'', ''isPrototypeOf'',
      ''propertyIsEnumerable'', ''toString'', ''valueOf'', ''__proto__'',
      ''toLocaleString'']"

datatype 'a lookup = Own 'a | Inherited | Undefined

definition literal_lookup :: "(string \<times> 'a) list \<Rightarrow> string \<Rightarrow> 'a lookup" where
  "literal_lookup table k =
     (case map_of table k of
        Some v \<Rightarrow> Own v
      | None \<Rightarrow> if k \<in> set object_prototype_names then Inherited else Undefined)"

definition defaultTargetPaths :: "(string \<times> string) list" where
  "defaultTargetPaths =
     [(''node'', ''./package.json''),
      (''jsr'', ''./jsr.json''),
      (''deno'', ''./deno.json''),
      (''webext'', ''./manifest.json'')]"

subsection \<open>The project the command runs in\<close>

text \<open>
  \<open>ExitEvent code\<close> is the child's \<open>exit\<close> event (\<open>None\<close> is the \<open>null\<close> code of a child
  ended by a signal); \<open>ErrorEvent m\<close> is its \<open>error\<close> event with the message \<open>m\<close>.
\<close>

datatype child_event = ExitEvent "nat option" | ErrorEvent string

text \<open>
  \<open>files\<close>: the names under the working directory for which \<open>access\<close> succeeds.
  \<open>glob_matches\<close>: what \<open>glob(CONFIG_PATTERN, { cwd })\<close> yields.
  \<open>manifest\<close>: the value of \<open>JSON.parse(await readFile(PACKAGE, "utf-8"))\<close>, \<open>None\<close>
  when reading or parsing throws.
  \<open>user_agent\<close>: \<open>process.env.npm_config_user_agent\<close>, \<open>None\<close> when unset.
  \<open>spawn\<close>: how the child started for a command and its arguments ends.
  \<open>write_error\<close>: the message of the error \<open>writeFile\<close> rejects with, \<open>None\<close> when it
  succeeds.
\<close>

record project =
  files :: "string set"
  glob_matches :: "string list"
  manifest :: "jsval option"
  user_agent :: "string option"
  spawn :: "string \<Rightarrow> string list \<Rightarrow> child_event"
  write_error :: "string option"

definition exists_file :: "project \<Rightarrow> string \<Rightarrow> bool" where
  "exists_file p name = (name \<in> files p)"

subsection \<open>Package-manager detection\<close>

text \<open>
  The \<open>try\<close> block of \<open>detectPackageManager\<close>: \<open>Some name\<close> when it returns, \<open>None\<close> when
  it falls through, either because the field is falsy or because something threw
  (no manifest, a \<open>null\<close> manifest, a truthy field that is not a string and so has no
  \<open>split\<close>) and the empty \<open>catch\<close> swallowed it.
\<close>

definition manifest_packageManager :: "project \<Rightarrow> string option" where
  "manifest_packageManager p =
     (case manifest p of
        None \<Rightarrow> None
      | Some pkg \<Rightarrow>
          (case member pkg ''packageManager'' of
             None \<Rightarrow> None
           | Some v \<Rightarrow>
               if truthy v
               then (case v of JStr s \<Rightarrow> Some (before_at s) | _ \<Rightarrow> None)
               else None))"

text \<open>The chain of \<open>ua?.startsWith(...)\<close> tests and the final \<open>return "npm"\<close>.\<close>

definition from_user_agent :: "string option \<Rightarrow> string" where
  "from_user_agent ua =
     (case ua of
        None \<Rightarrow> ''npm''
      | Some u \<Rightarrow>
          if prefix ''pnpm'' u then ''pnpm''
          else if prefix ''yarn'' u then ''yarn''
          else if prefix ''bun'' u then ''bun''
          else if prefix ''npm'' u then ''npm''
          else ''npm'')"

definition detectPackageManager :: "project \<Rightarrow> string" where
  "detectPackageManager p =
     (if exists_file p ''pnpm-lock.yaml'' then ''pnpm''
      else if exists_file p ''yarn.lock'' then ''yarn''
      else if exists_file p ''bun.lock'' then ''bun''
      else if exists_file p ''bun.lockb'' then ''bun''
      else if exists_file p ''package-lock.json'' then ''npm''
      else (case manifest_packageManager p of
              Some pm \<Rightarrow> pm
            | None \<Rightarrow> from_user_agent (user_agent p)))"

subsection \<open>Existing configuration and installed library\<close>

definition hasConfig :: "project \<Rightarrow> bool" where
  "hasConfig p =
     (if length (glob_matches p) > 0 then True
      else (case manifest p of
              None \<Rightarrow> False
            | Some pkg \<Rightarrow>
                (case member pkg ''release-hub'' of
                   None \<Rightarrow> False
                 | Some v \<Rightarrow> if truthy v then True else False)))"

definition hasLib :: "project \<Rightarrow> bool" where
  "hasLib p =
     (case manifest p of
        None \<Rightarrow> False
      | Some pkg \<Rightarrow>
          truthy (js_or (opt_member (opt_member pkg ''dependencies'') NAME)
                        (opt_member (opt_member pkg ''devDependencies'') NAME)))"

subsection \<open>Errors and log lines\<close>

text \<open>
  A thrown value is an error object with a message. \<open>log.error\<close>, \<open>log.info\<close> and
  \<open>log.success\<close> append a line to the log; the spinner, \<open>intro\<close> and \<open>outro\<close> only
  decorate the terminal and are left out.
\<close>

datatype error = Error string | TypeError string

fun message :: "error \<Rightarrow> string" where
  "message (Error m) = m"
| "message (TypeError m) = m"

datatype level = LogError | LogInfo | LogSuccess

type_synonym logline = "level \<times> string"

text \<open>The decimal digits of an exit code, for the template string of \<open>spawnAsync\<close>.\<close>

fun decimal :: "nat \<Rightarrow> string" where
  "decimal n =
     (if n < 10 then [char_of (48 + n)]
      else decimal (n div 10) @ [char_of (48 + n mod 10)])"

definition code_text :: "nat option \<Rightarrow> string" where
  "code_text code = (case code of None \<Rightarrow> ''null'' | Some n \<Rightarrow> decimal n)"

text \<open>The wording of the engine's TypeError for destructuring a value that is not
  iterable.\<close>

definition not_iterable :: error where
  "not_iterable = TypeError ''PACKAGE_INSTALL[pm] is not iterable''"

text \<open>
  \<open>spawnAsync\<close>: the promise resolves on exit code 0 and rejects on any other exit and on
  the \<open>error\<close> event.
\<close>

definition spawnAsync :: "project \<Rightarrow> string \<Rightarrow> string list \<Rightarrow> error + unit" where
  "spawnAsync p cmd args =
     (case spawn p cmd args of
        ExitEvent code \<Rightarrow>
          if code = Some 0 then Inr ()
          else Inl (Error (cmd @ '' exited with code '' @ code_text code))
      | ErrorEvent m \<Rightarrow> Inl (Error m))"

subsection \<open>Prompts\<close>

text \<open>
  What the user does at the terminal is a list of answers, read from the left, one prompt
  after the other. \<open>Cancel\<close> is the cancel symbol, which every prompt can return. A
  prompt returns a value of its own kind that it accepts: \<open>confirm\<close> a boolean,
  \<open>select\<close> one of its option values, \<open>multiselect\<close> some of its option values without
  repetition in the order they were picked, \<open>text\<close> a string that its \<open>validate\<close>
  callback lets pass. Any other entry is input the prompt does not take: it stays open
  and reads on. When the list is used up the prompt is still waiting (there is no
  timeout), which is the result \<open>None\<close>.
\<close>

datatype answer =
    Cancel
  | Confirm bool
  | Select string
  | Multi "string list"
  | Text string

datatype 'a prompted = Cancelled | Answered 'a

fun ask :: "(answer \<Rightarrow> 'a option) \<Rightarrow> answer list \<Rightarrow> ('a prompted \<times> answer list) option" where
  "ask accept [] = None"
| "ask accept (a # rest) =
     (if a = Cancel then Some (Cancelled, rest)
      else (case accept a of
              Some v \<Rightarrow> Some (Answered v, rest)
            | None \<Rightarrow> ask accept rest))"

definition confirm :: "answer list \<Rightarrow> (bool prompted \<times> answer list) option" where
  "confirm = ask (\<lambda>a. case a of Confirm b \<Rightarrow> Some b | _ \<Rightarrow> None)"

definition select :: "string list \<Rightarrow> answer list \<Rightarrow> (string prompted \<times> answer list) option" where
  "select options =
     ask (\<lambda>a. case a of
                Select v \<Rightarrow> if v \<in> set options then Some v else None
              | _ \<Rightarrow> None)"

definition multiselect ::
  "string list \<Rightarrow> answer list \<Rightarrow> (string list prompted \<times> answer list) option" where
  "multiselect options =
     ask (\<lambda>a. case a of
                Multi vs \<Rightarrow> if set vs \<subseteq> set options \<and> distinct vs then Some vs else None
              | _ \<Rightarrow> None)"

definition text_prompt ::
  "(string \<Rightarrow> string option) \<Rightarrow> answer list \<Rightarrow> (string prompted \<times> answer list) option" where
  "text_prompt validate =
     ask (\<lambda>a. case a of
                Text v \<Rightarrow> if validate v = None then Some v else None
              | _ \<Rightarrow> None)"

text \<open>The \<open>validate\<close> callback of the path prompt: the regular expression
  \<open>/^(\.\/|\.\.\/)/\<close>.\<close>

definition validate :: "string \<Rightarrow> string option" where
  "validate v =
     (if \<not> (prefix ''./'' v \<or> prefix ''../'' v)
      then Some ''Path must start with ./ or ../''
      else None)"

subsection \<open>Control flow of the run\<close>

text \<open>
  A piece of the run starts with the answers not yet read and the log so far. It ends
  in one of four ways: it goes on with a value (\<open>Next\<close>), it calls \<open>process.exit\<close>
  (\<open>ProcessExit\<close>), it throws (\<open>Thrown\<close>), or it sits at a prompt that is never answered
  (\<open>Pending\<close>).
\<close>

datatype 'a flow =
    Next 'a "answer list" "logline list"
  | ProcessExit nat "logline list"
  | Thrown error "logline list"
  | Pending "logline list"

definition and_then ::
  "'a flow \<Rightarrow> ('a \<Rightarrow> answer list \<Rightarrow> logline list \<Rightarrow> 'b flow) \<Rightarrow> 'b flow" where
  "and_then m k =
     (case m of
        Next v s lg \<Rightarrow> k v s lg
      | ProcessExit n lg \<Rightarrow> ProcessExit n lg
      | Thrown e lg \<Rightarrow> Thrown e lg
      | Pending lg \<Rightarrow> Pending lg)"

text \<open>
  \<open>exitOnCancel\<close>, applied to what a prompt returned: on the cancel symbol it logs and
  calls \<open>process.exit(1)\<close>, otherwise the run goes on with the answer.
\<close>

definition exitOnCancel ::
  "('a prompted \<times> answer list) option \<Rightarrow> logline list \<Rightarrow> 'a flow" where
  "exitOnCancel result lg =
     (case result of
        None \<Rightarrow> Pending lg
      | Some (Cancelled, rest) \<Rightarrow>
          ProcessExit 1 (lg @ [(LogError, ''Operation cancelled by user'')])
      | Some (Answered v, rest) \<Rightarrow> Next v rest lg)"

lemma ask_shorter: "ask accept s = Some (r, rest) \<Longrightarrow> length rest < length s"
  by (induction s) (auto split: if_splits option.splits)

lemma exitOnCancel_shorter:
  "exitOnCancel (ask accept s) lg = Next v rest lg' \<Longrightarrow> length rest < length s"
  by (auto simp: exitOnCancel_def split: option.splits prod.splits prompted.splits
           dest: ask_shorter)

subsection \<open>The install step\<close>

text \<open>
  The body of \<open>if (!isInstalled)\<close>. \<open>const [cmd, cmdArgs] = PACKAGE_INSTALL[pm]\<close> takes
  the pair of an own entry; \<open>undefined\<close> and the inherited members of \<open>Object.prototype\<close>
  (functions, and the prototype object itself) are not iterable, so destructuring them
  throws.
\<close>

definition install_step :: "project \<Rightarrow> answer list \<Rightarrow> logline list \<Rightarrow> unit flow" where
  "install_step p s lg =
     (if \<not> hasLib p then
        (let pm = detectPackageManager p in
         and_then (exitOnCancel (confirm s) lg)
           (\<lambda>shouldInstall s lg.
              if \<not> shouldInstall then Next () s (lg @ [(LogInfo, ''Skipping installation'')])
              else (case literal_lookup PACKAGE_INSTALL pm of
                      Own (cmd, cmdArgs) \<Rightarrow>
                        (case spawnAsync p cmd cmdArgs of
                           Inl e \<Rightarrow> Thrown e lg
                         | Inr u \<Rightarrow> Next () s lg)
                    | Inherited \<Rightarrow> Thrown not_iterable lg
                    | Undefined \<Rightarrow> Thrown not_iterable lg)))
      else Next () s lg)"

subsection \<open>Assembling the configuration\<close>

definition target_options :: "string list" where
  "target_options = [''node'', ''jsr'', ''deno'', ''webext'']"

definition release_options :: "string list" where
  "release_options = [''major'', ''minor'', ''patch'']"

definition sync_options :: "string list" where
  "sync_options = [''all'', ''none'', ''groups'']"

text \<open>\<open>defaultTargetPaths[t]\<close>, for \<open>t\<close> one of the option values of the target prompt.\<close>

definition defaultPath :: "string \<Rightarrow> jsval" where
  "defaultPath t = (case map_of defaultTargetPaths t of Some path \<Rightarrow> JStr path | None \<Rightarrow> JUndefined)"

text \<open>The loop \<open>for (const t of askTargets)\<close>, with \<open>targetsPath\<close> as it grows.\<close>

fun collect_paths ::
  "string list \<Rightarrow> (string \<times> jsval) list \<Rightarrow> answer list \<Rightarrow> logline list
     \<Rightarrow> (string \<times> jsval) list flow" where
  "collect_paths [] targetsPath s lg = Next targetsPath s lg"
| "collect_paths (t # ts) targetsPath s lg =
     and_then (exitOnCancel (text_prompt validate s) lg)
       (\<lambda>r s lg. collect_paths ts (obj_set targetsPath t (js_or (JStr r) (defaultPath t))) s lg)"

text \<open>
  The test \<open>!group || group.size < 2\<close> on the array that \<open>multiselect\<close> returned. The
  member read cannot throw: it is evaluated on a truthy value only.
\<close>

definition rejected :: "jsval \<Rightarrow> bool" where
  "rejected grp =
     (\<not> truthy grp \<or>
      (case member grp ''size'' of Some n \<Rightarrow> js_less n (JNum 2) | None \<Rightarrow> False))"

text \<open>
  The loop \<open>while (addMore)\<close>, entered with \<open>addMore = true\<close>; \<open>syncGroups\<close> is the array
  as it grows and \<open>grp\<close> the source's \<open>group\<close>. Each round reads at least one answer, so on a finite list of answers the
  loop comes to an end.
\<close>

function group_loop :: "jsval list \<Rightarrow> answer list \<Rightarrow> logline list \<Rightarrow> jsval list flow" where
  "group_loop syncGroups s lg =
     (case exitOnCancel (multiselect target_options s) lg of
        Next grp s1 lg1 \<Rightarrow>
          if rejected (JArr (map JStr grp))
          then group_loop syncGroups s1
                 (lg1 @ [(LogError, ''A sync group must contain at least 2 targets.'')])
          else (case exitOnCancel (confirm s1) lg1 of
                  Next again s2 lg2 \<Rightarrow>
                    if again then group_loop (syncGroups @ [JArr (map JStr grp)]) s2 lg2
                    else Next (syncGroups @ [JArr (map JStr grp)]) s2 lg2
                | ProcessExit n lg2 \<Rightarrow> ProcessExit n lg2
                | Thrown e lg2 \<Rightarrow> Thrown e lg2
                | Pending lg2 \<Rightarrow> Pending lg2)
      | ProcessExit n lg1 \<Rightarrow> ProcessExit n lg1
      | Thrown e lg1 \<Rightarrow> Thrown e lg1
      | Pending lg1 \<Rightarrow> Pending lg1)"
  by pat_completeness auto
termination
proof (relation "measure (\<lambda>(syncGroups, s, lg). length s)")
  show "wf (measure (\<lambda>(syncGroups, s, lg). length s))" by simp
next
  fix syncGroups :: "jsval list" and s lg grp s1 lg1
  assume "exitOnCancel (multiselect target_options s) lg = Next grp s1 lg1"
  then have "length s1 < length s"
    unfolding multiselect_def by (rule exitOnCancel_shorter)
  then show "((syncGroups, s1, lg1 @ [(LogError, ''A sync group must contain at least 2 targets.'')]),
              (syncGroups, s, lg)) \<in> measure (\<lambda>(syncGroups, s, lg). length s)"
    by simp
next
  fix syncGroups :: "jsval list" and s lg grp s1 lg1 again s2 lg2
  assume "exitOnCancel (multiselect target_options s) lg = Next grp s1 lg1"
    and "exitOnCancel (confirm s1) lg1 = Next again s2 lg2"
  then have "length s1 < length s" and "length s2 < length s1"
    unfolding multiselect_def confirm_def by (auto dest: exitOnCancel_shorter)
  then show "((syncGroups @ [JArr (map JStr grp)], s2, lg2), (syncGroups, s, lg))
              \<in> measure (\<lambda>(syncGroups, s, lg). length s)"
    by simp
qed

declare group_loop.simps [simp del]

text \<open>
  The prompts from \<open>log.info("Configuring Release Hub")\<close> to
  \<open>log.success("Configuration complete")\<close>, on the module's \<open>config\<close> object, which
  starts as \<open>{ $schema: CONFIG_SCHEMA_URL }\<close>.
\<close>

definition initial_config :: "(string \<times> jsval) list" where
  "initial_config = [(''$schema'', JStr CONFIG_SCHEMA_URL)]"

definition sync_step ::
  "(string \<times> jsval) list \<Rightarrow> answer list \<Rightarrow> logline list \<Rightarrow> (string \<times> jsval) list flow" where
  "sync_step config s lg =
     and_then (exitOnCancel (select sync_options s) lg)
       (\<lambda>syncMode s lg.
          let config = (if syncMode = ''all'' then obj_set config ''sync'' (JBool True) else config);
              config = (if syncMode = ''none'' then obj_set config ''sync'' (JBool False) else config)
          in if syncMode = ''groups''
             then and_then
                    (group_loop [] s
                       (lg @ [(LogInfo,
                               ''Create sync groups, each group must contain at least 2 targets'')]))
                    (\<lambda>syncGroups s lg. Next (obj_set config ''sync'' (JArr syncGroups)) s lg)
             else Next config s lg)"

definition configure :: "answer list \<Rightarrow> logline list \<Rightarrow> (string \<times> jsval) list flow" where
  "configure s lg =
     and_then (exitOnCancel (select release_options s) (lg @ [(LogInfo, ''Configuring Release Hub'')]))
       (\<lambda>defaultReleaseType s lg.
          let config = obj_set initial_config ''defaultReleaseType'' (JStr defaultReleaseType) in
          and_then (exitOnCancel (multiselect target_options s) lg)
            (\<lambda>askTargets s lg.
               let targets = fromEntries (map (\<lambda>t. (t, JBool True)) askTargets);
                   config = obj_set config ''targets'' (JObj targets)
               in and_then (collect_paths askTargets [] s lg)
                    (\<lambda>targetsPath s lg.
                       let config = obj_set config ''targetsPath'' (JObj targetsPath)
                       in and_then (sync_step config s lg)
                            (\<lambda>config s lg.
                               Next config s (lg @ [(LogSuccess, ''Configuration complete'')])))))"

subsection \<open>The whole run\<close>

text \<open>
  The \<open>try\<close> block. Its value is the object handed to \<open>JSON.stringify\<close> and written to
  \<open>CONFIG_FILE\<close>; the serialisation itself is the library's. A \<open>writeFile\<close> that rejects
  leaves no file in the model.
\<close>

definition try_block :: "project \<Rightarrow> answer list \<Rightarrow> logline list \<Rightarrow> jsval flow" where
  "try_block p s lg =
     (if hasConfig p
      then Thrown (Error ''A Release Hub config already exists in this project'') lg
      else and_then (install_step p s lg)
             (\<lambda>u s lg.
                and_then (configure s lg)
                  (\<lambda>config s lg.
                     case write_error p of
                       Some m \<Rightarrow> Thrown (Error m) lg
                     | None \<Rightarrow> Next (JObj config) s lg)))"

text \<open>
  How the process ends: \<open>Exited status log written\<close>, where \<open>written\<close> is the object
  stored in \<open>CONFIG_FILE\<close> if the run wrote it; or \<open>Waiting log\<close>, the run sitting at a
  prompt. \<open>process.exit(1)\<close> ends the process on the spot with status 1. The \<open>catch\<close>
  clause logs \<open>err.message || "Unknown error occurred"\<close> and returns; the module's code
  has then run to its end, no exit code was set, and the process ends with status 0, as it
  does after the \<open>try\<close> block completes.
\<close>

datatype outcome =
    Exited nat "logline list" "jsval option"
  | Waiting "logline list"

definition main :: "project \<Rightarrow> answer list \<Rightarrow> outcome" where
  "main p script =
     (case try_block p script [] of
        Next config s lg \<Rightarrow> Exited 0 lg (Some config)
      | ProcessExit n lg \<Rightarrow> Exited n lg None
      | Thrown err lg \<Rightarrow>
          Exited 0
            (lg @ [(LogError, if message err \<noteq> [] then message err else ''Unknown error occurred'')])
            None
      | Pending lg \<Rightarrow> Waiting lg)"

section \<open>The specification's statements\<close>

text \<open>
  The definitions of this section follow the words of the specification, not the code;
  the theorems below compare the two.
\<close>

text \<open>The fixed order of the lockfiles, each with the manager it stands for.\<close>

definition lockfile_order :: "(string \<times> string) list" where
  "lockfile_order =
     [(''pnpm-lock.yaml'', ''pnpm''),
      (''yarn.lock'', ''yarn''),
      (''bun.lock'', ''bun''),
      (''bun.lockb'', ''bun''),
      (''package-lock.json'', ''npm'')]"

text \<open>The manager of the first lockfile of that order that is present.\<close>

definition highest_priority :: "string set \<Rightarrow> string option" where
  "highest_priority present =
     map_option snd (find (\<lambda>(file, pm). file \<in> present) lockfile_order)"

text \<open>The manifest's \<open>packageManager\<close> field, when the manifest could be read and
  holds a non-empty string there.\<close>

definition declared_manager :: "jsval option \<Rightarrow> string option" where
  "declared_manager m =
     (case m of
        Some (JObj kvs) \<Rightarrow>
          (case map_of kvs ''packageManager'' of
             Some (JStr s) \<Rightarrow> if s = [] then None else Some s
           | _ \<Rightarrow> None)
      | _ \<Rightarrow> None)"

text \<open>
  The fallback chain in the specification's words: the declared manager up to its
  \<open>@\<close>; else the first of pnpm, yarn, bun, npm that the user-agent hint starts with; else
  npm.
\<close>

definition spec_fallback :: "jsval option \<Rightarrow> string option \<Rightarrow> string" where
  "spec_fallback m ua =
     (case declared_manager m of
        Some s \<Rightarrow> takeWhile (\<lambda>c. c \<noteq> CHR ''@'') s
      | None \<Rightarrow>
          (case ua of
             None \<Rightarrow> ''npm''
           | Some u \<Rightarrow>
               (case find (\<lambda>name. prefix name u) [''pnpm'', ''yarn'', ''bun'', ''npm''] of
                  Some name \<Rightarrow> name
                | None \<Rightarrow> ''npm'')))"

text \<open>\<open>k\<close> is a key of the object \<open>v\<close>.\<close>

definition listed_key :: "jsval \<Rightarrow> string \<Rightarrow> bool" where
  "listed_key v k = (case v of JObj kvs \<Rightarrow> map_of kvs k \<noteq> None | _ \<Rightarrow> False)"

text \<open>\<open>isLibraryInstalled\<close> in the specification's words: the library name is a key of
  \<open>dependencies\<close> or of \<open>devDependencies\<close>; false without a manifest.\<close>

definition spec_isLibraryInstalled :: "jsval option \<Rightarrow> bool" where
  "spec_isLibraryInstalled m =
     (case m of
        None \<Rightarrow> False
      | Some pkg \<Rightarrow>
          listed_key (opt_member pkg ''dependencies'') NAME \<or>
          listed_key (opt_member pkg ''devDependencies'') NAME)"

text \<open>\<open>k\<close> is a key of the object \<open>v\<close> and the value stored under it is truthy.\<close>

definition truthy_entry :: "jsval \<Rightarrow> string \<Rightarrow> bool" where
  "truthy_entry v k =
     (case v of
        JObj kvs \<Rightarrow> (case map_of kvs k of Some w \<Rightarrow> truthy w | None \<Rightarrow> False)
      | _ \<Rightarrow> False)"

text \<open>An empty directory in which every child process and every write succeeds; the
  examples below change single fields of it.\<close>

definition bare_project :: project where
  "bare_project =
     \<lparr>files = {}, glob_matches = [], manifest = None, user_agent = None,
      spawn = (\<lambda>cmd args. ExitEvent (Some 0)), write_error = None\<rparr>"

definition cancel_line :: logline where
  "cancel_line = (LogError, ''Operation cancelled by user'')"

text \<open>
  A piece of the run is steady when answers it has not read do not matter to it, and
  when, sitting at a prompt with all answers read, a cancellation as the next answer
  makes it log the cancellation and call \<open>process.exit(1)\<close>.
\<close>

definition steady :: "(answer list \<Rightarrow> logline list \<Rightarrow> 'a flow) \<Rightarrow> bool" where
  "steady f =
     (\<forall>s lg xs.
        (\<forall>v r l. f s lg = Next v r l \<longrightarrow> f (s @ xs) lg = Next v (r @ xs) l) \<and>
        (\<forall>l. f s lg = Pending l \<longrightarrow> f (s @ Cancel # xs) lg = ProcessExit 1 (l @ [cancel_line])))"

lemmas run_defs =
  main_def try_block_def install_step_def configure_def sync_step_def and_then_def
  exitOnCancel_def confirm_def select_def multiselect_def text_prompt_def validate_def
  target_options_def release_options_def sync_options_def initial_config_def fromEntries_def
  js_or_def defaultPath_def defaultTargetPaths_def rejected_def js_less_def Let_def

section \<open>Package-manager detection\<close>

text \<open>
  Claim C4. Whenever at least one of the five lockfiles is present,
  \<open>detectPackageManager\<close> returns the manager of the first present lockfile in the order
  pnpm-lock.yaml, yarn.lock, bun.lock, bun.lockb, package-lock.json, and it returns the
  same whatever the manifest and the user-agent hint are: the later fallbacks are not
  consulted.
\<close>

theorem detectPackageManager_lockfile_priority:
  assumes "\<exists>file \<in> fst ` set lockfile_order. file \<in> files p"
  shows "\<exists>pm. highest_priority (files p) = Some pm \<and>
              detectPackageManager p = pm \<and>
              (\<forall>m ua. detectPackageManager (p\<lparr>manifest := m, user_agent := ua\<rparr>) = pm)"
  using assms
  by (auto simp: lockfile_order_def highest_priority_def detectPackageManager_def exists_file_def)

text \<open>
  An instance of C4: with package-lock.json, bun.lockb and yarn.lock present, a manifest
  that declares pnpm and a user agent of bun, the answer is yarn.
\<close>

theorem detectPackageManager_lockfile_priority_witness:
  "\<exists>pm. highest_priority {''package-lock.json'', ''bun.lockb'', ''yarn.lock''} = Some pm \<and>
     pm = ''yarn'' \<and>
     detectPackageManager
       \<lparr>files = {''package-lock.json'', ''bun.lockb'', ''yarn.lock''}, glob_matches = [],
        manifest = Some (JObj [(''packageManager'', JStr ''pnpm@9.0.0'')]),
        user_agent = Some ''bun/1.2'',
        spawn = (\<lambda>cmd args. ExitEvent (Some 0)), write_error = None\<rparr> = pm"
  using detectPackageManager_lockfile_priority
          [of "\<lparr>files = {''package-lock.json'', ''bun.lockb'', ''yarn.lock''}, glob_matches = [],
        manifest = Some (JObj [(''packageManager'', JStr ''pnpm@9.0.0'')]),
        user_agent = Some ''bun/1.2'',
        spawn = (\<lambda>cmd args. ExitEvent (Some 0)), write_error = None\<rparr>"]
  by (simp add: lockfile_order_def highest_priority_def)

lemma manifest_packageManager_declared:
  "manifest_packageManager p = map_option before_at (declared_manager (manifest p))"
proof (cases "manifest p")
  case None
  then show ?thesis by (simp add: manifest_packageManager_def declared_manager_def)
next
  case (Some pkg)
  then show ?thesis
    by (cases pkg)
       (auto simp: manifest_packageManager_def declared_manager_def
             split: option.splits jsval.splits)
qed

lemma from_user_agent_find:
  "from_user_agent ua =
     (case ua of
        None \<Rightarrow> ''npm''
      | Some u \<Rightarrow>
          (case find (\<lambda>name. prefix name u) [''pnpm'', ''yarn'', ''bun'', ''npm''] of
             Some name \<Rightarrow> name
           | None \<Rightarrow> ''npm''))"
  by (simp add: from_user_agent_def split: option.splits)

lemma detectPackageManager_no_lockfile:
  assumes "\<forall>file \<in> fst ` set lockfile_order. file \<notin> files p"
  shows "detectPackageManager p =
           (case manifest_packageManager p of
              Some pm \<Rightarrow> pm
            | None \<Rightarrow> from_user_agent (user_agent p))"
  using assms by (simp add: detectPackageManager_def exists_file_def lockfile_order_def)

text \<open>
  Claim C7. With none of the five lockfiles present, \<open>detectPackageManager\<close> is the
  specification's fallback chain: the manifest's \<open>packageManager\<close> string up to its first
  \<open>@\<close> (a manifest that cannot be read or parsed counts as having none); else the
  first of pnpm, yarn, bun, npm that the user-agent hint starts with; else npm, when the
  hint is unset or starts with none of them.
\<close>

theorem detectPackageManager_fallback:
  assumes "\<forall>file \<in> fst ` set lockfile_order. file \<notin> files p"
  shows "detectPackageManager p = spec_fallback (manifest p) (user_agent p)"
  using detectPackageManager_no_lockfile [OF assms]
  by (simp add: manifest_packageManager_declared from_user_agent_find spec_fallback_def
                before_at_def split: option.splits)

text \<open>
  Instances of C7 in an empty directory: a manifest declaring \<open>yarn@3.0.0\<close> gives yarn
  even under a bun user agent; without a readable manifest a hint starting with \<open>bun\<close>
  gives bun, and an unrecognised hint gives npm.
\<close>

theorem detectPackageManager_fallback_witness:
  "detectPackageManager
     (bare_project\<lparr>manifest := Some (JObj [(''packageManager'', JStr ''yarn@3.0.0'')]),
                   user_agent := Some ''bun/1.2.0''\<rparr>) = ''yarn'' \<and>
   detectPackageManager (bare_project\<lparr>user_agent := Some ''bun/1.2.0''\<rparr>) = ''bun'' \<and>
   detectPackageManager (bare_project\<lparr>user_agent := Some ''deno/2.0''\<rparr>) = ''npm''"
  using detectPackageManager_fallback
          [of "bare_project\<lparr>manifest := Some (JObj [(''packageManager'', JStr ''yarn@3.0.0'')]),
                            user_agent := Some ''bun/1.2.0''\<rparr>"]
        detectPackageManager_fallback [of "bare_project\<lparr>user_agent := Some ''bun/1.2.0''\<rparr>"]
        detectPackageManager_fallback [of "bare_project\<lparr>user_agent := Some ''deno/2.0''\<rparr>"]
  by (simp add: bare_project_def lockfile_order_def spec_fallback_def declared_manager_def)

text \<open>
  Claim C3, evaluated where the code leaves the enumeration: in an empty directory whose
  manifest declares \<open>foo@1.0.0\<close>, \<open>detectPackageManager\<close> returns \<open>foo\<close>, which is none
  of npm, yarn, pnpm, bun.
\<close>

theorem detectPackageManager_outside_enumeration:
  "detectPackageManager
     (bare_project\<lparr>manifest := Some (JObj [(''packageManager'', JStr ''foo@1.0.0'')])\<rparr>) = ''foo'' \<and>
   ''foo'' \<notin> {''npm'', ''yarn'', ''pnpm'', ''bun''}"
  by (simp add: detectPackageManager_def exists_file_def bare_project_def
                manifest_packageManager_def before_at_def)

section \<open>The installed-library check\<close>

text \<open>
  Claim C9 as stated fails: with \<open>"dependencies": {"release-hub": ""}\<close> the library
  name is a key of \<open>dependencies\<close>, yet \<open>hasLib\<close> returns false, because the code tests the
  stored value for truthiness and the empty version string is falsy.
\<close>

theorem hasLib_key_counterexample:
  "spec_isLibraryInstalled
     (manifest (bare_project\<lparr>manifest :=
        Some (JObj [(''dependencies'', JObj [(''release-hub'', JStr [])])])\<rparr>)) \<and>
   \<not> hasLib (bare_project\<lparr>manifest :=
        Some (JObj [(''dependencies'', JObj [(''release-hub'', JStr [])])])\<rparr>)"
  by (simp add: spec_isLibraryInstalled_def listed_key_def hasLib_def opt_member_def NAME_def
                js_or_def bare_project_def)

lemma truthy_opt_member:
  "truthy (opt_member v NAME) = truthy_entry v NAME"
  by (cases v) (auto simp: opt_member_def truthy_entry_def NAME_def split: option.splits)

text \<open>
  Claim C9, amended. \<open>hasLib\<close> returns true if and only if the manifest could be read
  and the library name is a key with a truthy value in its \<open>dependencies\<close> or its
  \<open>devDependencies\<close> object; it returns false, and raises nothing, when the manifest is
  absent or unreadable.
\<close>

theorem hasLib_truthy_entry:
  "hasLib p =
     (case manifest p of
        None \<Rightarrow> False
      | Some pkg \<Rightarrow>
          truthy_entry (opt_member pkg ''dependencies'') NAME \<or>
          truthy_entry (opt_member pkg ''devDependencies'') NAME)"
  by (simp add: hasLib_def js_or_def truthy_opt_member split: option.splits)

section \<open>Exit status\<close>

lemma decimal_one: "decimal (Suc 0) = ''1''"
  by code_simp

text \<open>
  Claim C1, evaluated on its three fatal errors. Where the glob finds
  \<open>.release-hub.json\<close>; where the user confirms the installation and the child exits
  with code 1; where all prompts are answered and \<open>writeFile\<close> rejects: each time the
  top-level \<open>catch\<close> logs the one message, no file is written, and the process ends with
  status 0.
\<close>

theorem fatal_errors_exit_status:
  "main (bare_project\<lparr>glob_matches := [''.release-hub.json'']\<rparr>) [] =
     Exited 0 [(LogError, ''A Release Hub config already exists in this project'')] None \<and>
   main (bare_project\<lparr>spawn := (\<lambda>cmd args. ExitEvent (Some 1))\<rparr>) [Confirm True] =
     Exited 0 [(LogError, ''npm exited with code 1'')] None \<and>
   main (bare_project\<lparr>write_error := Some ''EACCES: permission denied''\<rparr>)
        [Confirm False, Select ''patch'', Multi [''node''], Text ''./package.json'', Select ''all''] =
     Exited 0
       [(LogInfo, ''Skipping installation''),
        (LogInfo, ''Configuring Release Hub''),
        (LogSuccess, ''Configuration complete''),
        (LogError, ''EACCES: permission denied'')]
       None"
  by (simp add: run_defs hasConfig_def hasLib_def bare_project_def detectPackageManager_def
                exists_file_def manifest_packageManager_def from_user_agent_def
                literal_lookup_def PACKAGE_INSTALL_def spawnAsync_def code_text_def decimal_one
                del: decimal.simps)

section \<open>Assembling the configuration\<close>

text \<open>
  Claim C2, evaluated on a group of one target: with the library installed, the answers
  patch, node and jsr with their default paths, sync mode groups, the single target node
  as a group and "no" to another group, the run emits no error about the group and writes
  \<open>"sync": [["node"]]\<close>.
\<close>

theorem single_target_group_appended:
  "main (bare_project\<lparr>manifest :=
           Some (JObj [(''devDependencies'', JObj [(''release-hub'', JStr ''^1.0.0'')])])\<rparr>)
     [Select ''patch'', Multi [''node'', ''jsr''], Text ''./package.json'', Text ''./jsr.json'',
      Select ''groups'', Multi [''node''], Confirm False] =
   Exited 0
     [(LogInfo, ''Configuring Release Hub''),
      (LogInfo, ''Create sync groups, each group must contain at least 2 targets''),
      (LogSuccess, ''Configuration complete'')]
     (Some (JObj
        [(''$schema'', JStr CONFIG_SCHEMA_URL),
         (''defaultReleaseType'', JStr ''patch''),
         (''targets'', JObj [(''node'', JBool True), (''jsr'', JBool True)]),
         (''targetsPath'', JObj [(''node'', JStr ''./package.json''), (''jsr'', JStr ''./jsr.json'')]),
         (''sync'', JArr [JArr [JStr ''node'']])]))"
  by (simp add: run_defs hasConfig_def hasLib_def opt_member_def NAME_def bare_project_def
                group_loop.simps)

text \<open>
  Claim C5. In a project without a release configuration, with the library installed and
  a write that succeeds, the answers minor, targets node and deno, the paths
  \<open>./package.json\<close> and \<open>./deno.json\<close> and sync mode all make the run write exactly the
  object with the keys \<open>$schema\<close>, \<open>defaultReleaseType\<close>, \<open>targets\<close>, \<open>targetsPath\<close>,
  \<open>sync\<close> in this order and the values of the claim, and exit with status 0.
\<close>

theorem assemble_minor_node_deno_all:
  assumes "\<not> hasConfig p" and "hasLib p" and "write_error p = None"
  shows "main p [Select ''minor'', Multi [''node'', ''deno''],
                 Text ''./package.json'', Text ''./deno.json'', Select ''all''] =
         Exited 0
           [(LogInfo, ''Configuring Release Hub''), (LogSuccess, ''Configuration complete'')]
           (Some (JObj
              [(''$schema'', JStr CONFIG_SCHEMA_URL),
               (''defaultReleaseType'', JStr ''minor''),
               (''targets'', JObj [(''node'', JBool True), (''deno'', JBool True)]),
               (''targetsPath'',
                  JObj [(''node'', JStr ''./package.json''), (''deno'', JStr ''./deno.json'')]),
               (''sync'', JBool True)]))"
  using assms by (simp add: run_defs)

text \<open>
  An instance of C5: an empty directory whose manifest lists the library under
  \<open>devDependencies\<close>.
\<close>

theorem assemble_minor_node_deno_all_witness:
  "\<not> hasConfig (bare_project\<lparr>manifest :=
        Some (JObj [(''devDependencies'', JObj [(''release-hub'', JStr ''^1.0.0'')])])\<rparr>) \<and>
   hasLib (bare_project\<lparr>manifest :=
        Some (JObj [(''devDependencies'', JObj [(''release-hub'', JStr ''^1.0.0'')])])\<rparr>) \<and>
   main (bare_project\<lparr>manifest :=
        Some (JObj [(''devDependencies'', JObj [(''release-hub'', JStr ''^1.0.0'')])])\<rparr>)
     [Select ''minor'', Multi [''node'', ''deno''],
      Text ''./package.json'', Text ''./deno.json'', Select ''all''] =
   Exited 0
     [(LogInfo, ''Configuring Release Hub''), (LogSuccess, ''Configuration complete'')]
     (Some (JObj
        [(''$schema'', JStr CONFIG_SCHEMA_URL),
         (''defaultReleaseType'', JStr ''minor''),
         (''targets'', JObj [(''node'', JBool True), (''deno'', JBool True)]),
         (''targetsPath'',
            JObj [(''node'', JStr ''./package.json''), (''deno'', JStr ''./deno.json'')]),
         (''sync'', JBool True)]))"
  using assemble_minor_node_deno_all
          [of "bare_project\<lparr>manifest :=
        Some (JObj [(''devDependencies'', JObj [(''release-hub'', JStr ''^1.0.0'')])])\<rparr>"]
  by (simp add: hasConfig_def hasLib_def opt_member_def NAME_def js_or_def bare_project_def)

section \<open>Cancellation\<close>

lemma ask_append_Some:
  "ask accept s = Some (r, rest) \<Longrightarrow> ask accept (s @ xs) = Some (r, rest @ xs)"
  by (induction s) (auto split: if_splits option.splits)

lemma ask_append_Cancel:
  "ask accept s = None \<Longrightarrow> ask accept (s @ Cancel # xs) = Some (Cancelled, xs)"
  by (induction s) (auto split: if_splits option.splits)

lemma steady_prompt: "steady (\<lambda>s lg. exitOnCancel (ask accept s) lg)"
  unfolding steady_def
proof (intro allI conjI impI)
  fix s lg xs v r l
  assume "exitOnCancel (ask accept s) lg = Next v r l"
  then have "ask accept s = Some (Answered v, r)" and "l = lg"
    by (auto simp: exitOnCancel_def split: option.splits prod.splits prompted.splits)
  then show "exitOnCancel (ask accept (s @ xs)) lg = Next v (r @ xs) l"
    by (simp add: ask_append_Some exitOnCancel_def)
next
  fix s lg xs l
  assume "exitOnCancel (ask accept s) lg = Pending l"
  then have "ask accept s = None" and "l = lg"
    by (auto simp: exitOnCancel_def split: option.splits prod.splits prompted.splits)
  then show "exitOnCancel (ask accept (s @ Cancel # xs)) lg = ProcessExit 1 (l @ [cancel_line])"
    by (simp add: ask_append_Cancel exitOnCancel_def cancel_line_def)
qed

lemma steadyD_Next:
  "steady f \<Longrightarrow> f s lg = Next v r l \<Longrightarrow> f (s @ xs) lg = Next v (r @ xs) l"
  unfolding steady_def by blast

lemma steadyD_Pending:
  "steady f \<Longrightarrow> f s lg = Pending l \<Longrightarrow> f (s @ Cancel # xs) lg = ProcessExit 1 (l @ [cancel_line])"
  unfolding steady_def by blast

lemma steady_and_then:
  assumes f: "steady f" and k: "\<And>v. steady (k v)"
  shows "steady (\<lambda>s lg. and_then (f s lg) k)"
  unfolding steady_def
proof (intro allI conjI impI)
  fix s lg xs v r l
  assume a: "and_then (f s lg) k = Next v r l"
  then obtain w r1 l1 where f1: "f s lg = Next w r1 l1" and k1: "k w r1 l1 = Next v r l"
    by (cases "f s lg") (auto simp: and_then_def)
  from steadyD_Next [OF f f1] steadyD_Next [OF k k1]
  show "and_then (f (s @ xs) lg) k = Next v (r @ xs) l"
    by (simp add: and_then_def)
next
  fix s lg xs l
  assume a: "and_then (f s lg) k = Pending l"
  show "and_then (f (s @ Cancel # xs) lg) k = ProcessExit 1 (l @ [cancel_line])"
  proof (cases "f s lg")
    case (Next w r1 l1)
    with a have k1: "k w r1 l1 = Pending l" by (simp add: and_then_def)
    from steadyD_Next [OF f Next] steadyD_Pending [OF k k1]
    show ?thesis by (simp add: and_then_def)
  next
    case (Pending l1)
    with a have "l1 = l" by (simp add: and_then_def)
    with steadyD_Pending [OF f Pending] show ?thesis by (simp add: and_then_def)
  qed (use a in \<open>simp_all add: and_then_def\<close>)
qed

lemma steady_Next: "steady (\<lambda>s lg. Next v s (g lg))"
  by (simp add: steady_def)

lemma steady_collect_paths: "steady (collect_paths ts tp)"
proof (induction ts arbitrary: tp)
  case Nil
  have "collect_paths [] tp = (\<lambda>s lg. Next tp s lg)" by (intro ext) simp
  then show ?case using steady_Next [of tp "\<lambda>lg. lg"] by simp
next
  case (Cons t ts)
  have eq: "collect_paths (t # ts) tp =
        (\<lambda>s lg. and_then (exitOnCancel (ask (\<lambda>a. case a of Text v \<Rightarrow> if validate v = None then Some v else None | _ \<Rightarrow> None) s) lg)
           (\<lambda>r. collect_paths ts (obj_set tp t (js_or (JStr r) (defaultPath t)))))"
    by (intro ext) (simp add: text_prompt_def)
  show ?case unfolding eq by (rule steady_and_then [OF steady_prompt Cons.IH])
qed

lemma steady_multiselect: "steady (\<lambda>s lg. exitOnCancel (multiselect opts s) lg)"
  unfolding multiselect_def by (rule steady_prompt)

lemma steady_select: "steady (\<lambda>s lg. exitOnCancel (select opts s) lg)"
  unfolding select_def by (rule steady_prompt)

lemma steady_confirm: "steady (\<lambda>s lg. exitOnCancel (confirm s) lg)"
  unfolding confirm_def by (rule steady_prompt)

lemma group_loop_Next:
  "group_loop gs s lg = Next v r l \<Longrightarrow> group_loop gs (s @ xs) lg = Next v (r @ xs) l"
proof (induction gs s lg rule: group_loop.induct)
  case (1 gs s lg)
  from "1.prems" obtain grp s1 lg1
    where m: "exitOnCancel (multiselect target_options s) lg = Next grp s1 lg1"
    by (subst (asm) group_loop.simps) (auto split: flow.splits)
  note m' = steadyD_Next [OF steady_multiselect m, of xs]
  show ?case
  proof (cases "rejected (JArr (map JStr grp))")
    case True
    with "1.prems" m
    have "group_loop gs s1 (lg1 @ [(LogError, ''A sync group must contain at least 2 targets.'')])
            = Next v r l"
      by (subst (asm) group_loop.simps) simp
    from "1.IH"(1) [OF m True this] m' True show ?thesis
      by (subst group_loop.simps) simp
  next
    case False
    with "1.prems" m obtain again s2 lg2
      where c: "exitOnCancel (confirm s1) lg1 = Next again s2 lg2"
      by (subst (asm) group_loop.simps) (auto split: flow.splits)
    note c' = steadyD_Next [OF steady_confirm c, of xs]
    show ?thesis
    proof (cases again)
      case True
      with "1.prems" m False c
      have "group_loop (gs @ [JArr (map JStr grp)]) s2 lg2 = Next v r l"
        by (subst (asm) group_loop.simps) simp
      from "1.IH"(2) [OF m False c True this] m' c' False True show ?thesis
        by (subst group_loop.simps) simp
    next
      case no: False
      with "1.prems" m False c
      have "Next (gs @ [JArr (map JStr grp)]) s2 lg2 = Next v r l"
        by (subst (asm) group_loop.simps) simp
      with m' c' False no show ?thesis
        by (subst group_loop.simps) auto
    qed
  qed
qed

lemma group_loop_Pending:
  "group_loop gs s lg = Pending l \<Longrightarrow>
   group_loop gs (s @ Cancel # xs) lg = ProcessExit 1 (l @ [cancel_line])"
proof (induction gs s lg rule: group_loop.induct)
  case (1 gs s lg)
  show ?case
  proof (cases "exitOnCancel (multiselect target_options s) lg")
    case (Next grp s1 lg1)
    note m = Next
    note m' = steadyD_Next [OF steady_multiselect m, of "Cancel # xs"]
    show ?thesis
    proof (cases "rejected (JArr (map JStr grp))")
      case True
      with "1.prems" m
      have "group_loop gs s1 (lg1 @ [(LogError, ''A sync group must contain at least 2 targets.'')])
              = Pending l"
        by (subst (asm) group_loop.simps) simp
      from "1.IH"(1) [OF m True this] m' True show ?thesis
        by (subst group_loop.simps) simp
    next
      case False
      show ?thesis
      proof (cases "exitOnCancel (confirm s1) lg1")
        case (Next again s2 lg2)
        note c = Next
        note c' = steadyD_Next [OF steady_confirm c, of "Cancel # xs"]
        from "1.prems" m False c have again
          by (subst (asm) group_loop.simps) (auto split: if_splits)
        with "1.prems" m False c
        have "group_loop (gs @ [JArr (map JStr grp)]) s2 lg2 = Pending l"
          by (subst (asm) group_loop.simps) simp
        from "1.IH"(2) [OF m False c \<open>again\<close> this] m' c' False \<open>again\<close> show ?thesis
          by (subst group_loop.simps) simp
      next
        case (Pending l2)
        with "1.prems" m False have "l2 = l"
          by (subst (asm) group_loop.simps) simp
        with steadyD_Pending [OF steady_confirm Pending, of xs] m' False show ?thesis
          by (subst group_loop.simps) simp
      next
        case (ProcessExit n l2)
        with "1.prems" m False show ?thesis
          by (subst (asm) group_loop.simps) simp
      next
        case (Thrown e l2)
        with "1.prems" m False show ?thesis
          by (subst (asm) group_loop.simps) simp
      qed
    qed
  next
    case (Pending l1)
    with "1.prems" have "l1 = l"
      by (subst (asm) group_loop.simps) simp
    with steadyD_Pending [OF steady_multiselect Pending, of xs] show ?thesis
      by (subst group_loop.simps) simp
  next
    case (ProcessExit n l1)
    with "1.prems" show ?thesis by (subst (asm) group_loop.simps) simp
  next
    case (Thrown e l1)
    with "1.prems" show ?thesis by (subst (asm) group_loop.simps) simp
  qed
qed

lemma steady_group_loop: "steady (group_loop gs)"
  unfolding steady_def by (blast intro: group_loop_Next group_loop_Pending)

lemma steady_pure: "steady (\<lambda>s lg. Next v s lg)"
  by (simp add: steady_def)

lemma steady_groups_branch:
  "steady (\<lambda>s lg. and_then (group_loop [] s (lg @ [line]))
                     (\<lambda>syncGroups s lg. Next (obj_set config ''sync'' (JArr syncGroups)) s lg))"
proof (rule steady_and_then)
  have "steady (group_loop [])" by (rule steady_group_loop)
  then show "steady (\<lambda>s lg. group_loop [] s (lg @ [line]))"
    by (simp add: steady_def)
next
  fix v show "steady (\<lambda>s lg. Next (obj_set config ''sync'' (JArr v)) s lg)"
    by (rule steady_pure)
qed

lemma steady_sync_step: "steady (sync_step config)"
proof -
  have eq: "sync_step config = (\<lambda>s lg. and_then (exitOnCancel (select sync_options s) lg)
       (\<lambda>syncMode s lg.
          let config' = (if syncMode = ''all'' then obj_set config ''sync'' (JBool True) else config);
              config'' = (if syncMode = ''none'' then obj_set config' ''sync'' (JBool False) else config')
          in if syncMode = ''groups''
             then and_then
                    (group_loop [] s
                       (lg @ [(LogInfo,
                               ''Create sync groups, each group must contain at least 2 targets'')]))
                    (\<lambda>syncGroups s lg. Next (obj_set config'' ''sync'' (JArr syncGroups)) s lg)
             else Next config'' s lg))"
    by (intro ext) (simp add: sync_step_def)
  show ?thesis
    unfolding eq
  proof (rule steady_and_then [OF steady_select])
    fix m :: string
    show "steady (\<lambda>s lg.
          let config' = (if m = ''all'' then obj_set config ''sync'' (JBool True) else config);
              config'' = (if m = ''none'' then obj_set config' ''sync'' (JBool False) else config')
          in if m = ''groups''
             then and_then
                    (group_loop [] s
                       (lg @ [(LogInfo,
                               ''Create sync groups, each group must contain at least 2 targets'')]))
                    (\<lambda>syncGroups s lg. Next (obj_set config'' ''sync'' (JArr syncGroups)) s lg)
             else Next config'' s lg)"
    proof (cases "m = ''groups''")
      case True
      then show ?thesis
        using steady_groups_branch [of "(LogInfo, ''Create sync groups, each group must contain at least 2 targets'')" config]
        by (simp add: Let_def)
    next
      case False
      then show ?thesis by (simp add: Let_def steady_pure)
    qed
  qed
qed

lemma steady_done: "steady (\<lambda>s lg. Next v s (lg @ [line]))"
  by (simp add: steady_def)

lemma steady_configure: "steady configure"
proof -
  have eq: "configure = (\<lambda>s lg.
     and_then (exitOnCancel (select release_options s) (lg @ [(LogInfo, ''Configuring Release Hub'')]))
       (\<lambda>defaultReleaseType s lg.
          and_then (exitOnCancel (multiselect target_options s) lg)
            (\<lambda>askTargets s lg.
               and_then (collect_paths askTargets [] s lg)
                    (\<lambda>targetsPath s lg.
                       and_then (sync_step
                                  (obj_set
                                    (obj_set
                                      (obj_set initial_config ''defaultReleaseType'' (JStr defaultReleaseType))
                                      ''targets'' (JObj (fromEntries (map (\<lambda>t. (t, JBool True)) askTargets))))
                                    ''targetsPath'' (JObj targetsPath)) s lg)
                            (\<lambda>config s lg.
                               Next config s (lg @ [(LogSuccess, ''Configuration complete'')]))))))"
    by (intro ext) (simp add: configure_def Let_def)
  have first: "steady (\<lambda>s lg. exitOnCancel (select release_options s)
                                  (lg @ [(LogInfo, ''Configuring Release Hub'')]))"
    using steady_select [of release_options] by (simp add: steady_def)
  show ?thesis
    unfolding eq
  proof (rule steady_and_then [OF first])
    fix r :: string
    show "steady (\<lambda>s lg.
          and_then (exitOnCancel (multiselect target_options s) lg)
            (\<lambda>askTargets s lg.
               and_then (collect_paths askTargets [] s lg)
                    (\<lambda>targetsPath s lg.
                       and_then (sync_step
                                  (obj_set
                                    (obj_set
                                      (obj_set initial_config ''defaultReleaseType'' (JStr r))
                                      ''targets'' (JObj (fromEntries (map (\<lambda>t. (t, JBool True)) askTargets))))
                                    ''targetsPath'' (JObj targetsPath)) s lg)
                            (\<lambda>config s lg.
                               Next config s (lg @ [(LogSuccess, ''Configuration complete'')])))))"
    proof (rule steady_and_then [OF steady_multiselect])
      fix sel :: "string list"
      show "steady (\<lambda>s lg.
               and_then (collect_paths sel [] s lg)
                    (\<lambda>targetsPath s lg.
                       and_then (sync_step
                                  (obj_set
                                    (obj_set
                                      (obj_set initial_config ''defaultReleaseType'' (JStr r))
                                      ''targets'' (JObj (fromEntries (map (\<lambda>t. (t, JBool True)) sel))))
                                    ''targetsPath'' (JObj targetsPath)) s lg)
                            (\<lambda>config s lg.
                               Next config s (lg @ [(LogSuccess, ''Configuration complete'')]))))"
      proof (rule steady_and_then [OF steady_collect_paths])
        fix tp :: "(string \<times> jsval) list"
        show "steady (\<lambda>s lg.
                       and_then (sync_step
                                  (obj_set
                                    (obj_set
                                      (obj_set initial_config ''defaultReleaseType'' (JStr r))
                                      ''targets'' (JObj (fromEntries (map (\<lambda>t. (t, JBool True)) sel))))
                                    ''targetsPath'' (JObj tp)) s lg)
                            (\<lambda>config s lg.
                               Next config s (lg @ [(LogSuccess, ''Configuration complete'')])))"
          by (rule steady_and_then [OF steady_sync_step steady_done])
      qed
    qed
  qed
qed

lemma steady_install_step: "steady (install_step p)"
proof (cases "hasLib p")
  case True
  then have "install_step p = (\<lambda>s lg. Next () s lg)"
    by (intro ext) (simp add: install_step_def)
  then show ?thesis by (simp add: steady_pure)
next
  case False
  then have eq: "install_step p = (\<lambda>s lg.
         and_then (exitOnCancel (confirm s) lg)
           (\<lambda>shouldInstall s lg.
              if \<not> shouldInstall then Next () s (lg @ [(LogInfo, ''Skipping installation'')])
              else (case literal_lookup PACKAGE_INSTALL (detectPackageManager p) of
                      Own (cmd, cmdArgs) \<Rightarrow>
                        (case spawnAsync p cmd cmdArgs of
                           Inl e \<Rightarrow> Thrown e lg
                         | Inr u \<Rightarrow> Next () s lg)
                    | Inherited \<Rightarrow> Thrown not_iterable lg
                    | Undefined \<Rightarrow> Thrown not_iterable lg)))"
    by (intro ext) (simp add: install_step_def Let_def)
  show ?thesis
    unfolding eq
  proof (rule steady_and_then [OF steady_confirm])
    fix b :: bool
    show "steady (\<lambda>s lg.
              if \<not> b then Next () s (lg @ [(LogInfo, ''Skipping installation'')])
              else (case literal_lookup PACKAGE_INSTALL (detectPackageManager p) of
                      Own (cmd, cmdArgs) \<Rightarrow>
                        (case spawnAsync p cmd cmdArgs of
                           Inl e \<Rightarrow> Thrown e lg
                         | Inr u \<Rightarrow> Next () s lg)
                    | Inherited \<Rightarrow> Thrown not_iterable lg
                    | Undefined \<Rightarrow> Thrown not_iterable lg))"
      by (cases b; cases "literal_lookup PACKAGE_INSTALL (detectPackageManager p)")
         (auto simp: steady_def split: sum.splits)
  qed
qed

lemma steady_try_block: "steady (try_block p)"
proof (cases "hasConfig p")
  case True
  then have "try_block p =
      (\<lambda>s lg. Thrown (Error ''A Release Hub config already exists in this project'') lg)"
    by (intro ext) (simp add: try_block_def)
  then show ?thesis by (simp add: steady_def)
next
  case False
  then have eq: "try_block p = (\<lambda>s lg. and_then (install_step p s lg)
             (\<lambda>u s lg.
                and_then (configure s lg)
                  (\<lambda>config s lg.
                     case write_error p of
                       Some m \<Rightarrow> Thrown (Error m) lg
                     | None \<Rightarrow> Next (JObj config) s lg)))"
    by (intro ext) (simp add: try_block_def)
  have w: "steady (\<lambda>s lg. case write_error p of Some m \<Rightarrow> Thrown (Error m) lg
                                | None \<Rightarrow> Next (JObj config) s lg)" for config
    by (cases "write_error p") (simp_all add: steady_def)
  have c: "steady (\<lambda>s lg. and_then (configure s lg)
                  (\<lambda>config s lg.
                     case write_error p of
                       Some m \<Rightarrow> Thrown (Error m) lg
                     | None \<Rightarrow> Next (JObj config) s lg))"
    by (rule steady_and_then [OF steady_configure w])
  show ?thesis
    unfolding eq by (rule steady_and_then [OF steady_install_step c])
qed

text \<open>
  Claim C6. Take any run that sits at a prompt with every answer given so far read.
  If the user's next answer is a cancellation, the process exits with status 1, the log
  gains the line "Operation cancelled by user", nothing that follows the cancellation is
  read, and no configuration file is written. This holds at every prompt of the run:
  the install confirmation, the release type, the targets, each path, the sync mode,
  each group selection and each "add another group" confirmation.
\<close>

theorem cancel_exits_without_config:
  assumes "main p pre = Waiting lg"
  shows "main p (pre @ Cancel # post) =
           Exited 1 (lg @ [(LogError, ''Operation cancelled by user'')]) None"
proof -
  from assms have "try_block p pre [] = Pending lg"
    by (simp add: main_def split: flow.splits)
  from steadyD_Pending [OF steady_try_block this, of post]
  show ?thesis by (simp add: main_def cancel_line_def)
qed

text \<open>
  An instance of C6: the user declines the installation, picks minor, node and deno,
  gives the first path and cancels at the prompt for the second one.
\<close>

theorem cancel_exits_without_config_witness:
  "main bare_project [Confirm False, Select ''minor'', Multi [''node'', ''deno''], Text ''./package.json'']
     = Waiting [(LogInfo, ''Skipping installation''), (LogInfo, ''Configuring Release Hub'')] \<and>
   main bare_project ([Confirm False, Select ''minor'', Multi [''node'', ''deno''], Text ''./package.json'']
                       @ Cancel # [Select ''all''])
     = Exited 1 ([(LogInfo, ''Skipping installation''), (LogInfo, ''Configuring Release Hub'')]
                  @ [(LogError, ''Operation cancelled by user'')]) None"
proof -
  have w: "main bare_project [Confirm False, Select ''minor'', Multi [''node'', ''deno''], Text ''./package.json'']
     = Waiting [(LogInfo, ''Skipping installation''), (LogInfo, ''Configuring Release Hub'')]"
    by (simp add: run_defs hasConfig_def hasLib_def bare_project_def)
  from w cancel_exits_without_config [OF w, of "[Select ''all'']"] show ?thesis by simp
qed

section \<open>The written configuration\<close>

lemma and_then_NextE:
  assumes "and_then m k = Next v s l"
  obtains w s1 l1 where "m = Next w s1 l1" and "k w s1 l1 = Next v s l"
  using assms by (cases m) (auto simp: and_then_def)

lemma exitOnCancel_NextD:
  "exitOnCancel res lg = Next v r l \<Longrightarrow> res = Some (Answered v, r) \<and> l = lg"
  by (auto simp: exitOnCancel_def split: option.splits prod.splits prompted.splits)

lemma ask_rest_subset: "ask accept s = Some (x, r) \<Longrightarrow> set r \<subseteq> set s"
  by (induction s) (auto split: if_splits option.splits)

lemma ask_accepted:
  "ask accept s = Some (Answered v, r) \<Longrightarrow> \<exists>a \<in> set s. accept a = Some v"
  by (induction s) (auto split: if_splits option.splits)

lemma multiselect_accepted:
  assumes "multiselect opts s = Some (Answered sel, r)"
  shows "Multi sel \<in> set s \<and> distinct sel \<and> set sel \<subseteq> set opts"
proof -
  from ask_accepted [OF assms [unfolded multiselect_def]]
  obtain a where ain: "a \<in> set s"
    and acc: "(case a of Multi vs \<Rightarrow> if set vs \<subseteq> set opts \<and> distinct vs then Some vs else None
          | _ \<Rightarrow> None) = Some sel"
    by blast
  show ?thesis by (insert ain acc, cases a) (auto split: if_splits)
qed

lemma select_accepted:
  assumes "select opts s = Some (Answered v, r)"
  shows "v \<in> set opts"
proof -
  from ask_accepted [OF assms [unfolded select_def]]
  obtain a where acc: "(case a of Select v \<Rightarrow> if v \<in> set opts then Some v else None
          | _ \<Rightarrow> None) = Some v"
    by blast
  show ?thesis by (insert acc, cases a) (auto split: if_splits)
qed

lemma text_prompt_accepted:
  assumes "text_prompt validate s = Some (Answered r, rest)"
  shows "r \<noteq> []"
proof -
  from ask_accepted [OF assms [unfolded text_prompt_def]]
  obtain a where acc: "(case a of Text v \<Rightarrow> if validate v = None then Some v else None
          | _ \<Rightarrow> None) = Some r"
    by blast
  have "validate r = None" by (insert acc, cases a) (auto split: if_splits)
  then show ?thesis by (auto simp: validate_def split: if_splits)
qed

lemma obj_set_new: "k \<notin> fst ` set kvs \<Longrightarrow> obj_set kvs k v = kvs @ [(k, v)]"
  by (induction kvs) auto

lemma foldl_obj_set_distinct:
  "distinct (map fst acc @ ks) \<Longrightarrow>
   foldl (\<lambda>obj (k, v). obj_set obj k v) acc (map (\<lambda>t. (t, x)) ks) = acc @ map (\<lambda>t. (t, x)) ks"
proof (induction ks arbitrary: acc)
  case Nil
  then show ?case by simp
next
  case (Cons k ks)
  from Cons.prems have new: "k \<notin> fst ` set acc" by auto
  from Cons.prems have "distinct (map fst (acc @ [(k, x)]) @ ks)" by auto
  from Cons.IH [OF this] new show ?case by (simp add: obj_set_new)
qed

lemma fromEntries_distinct:
  "distinct sel \<Longrightarrow> fromEntries (map (\<lambda>t. (t, x)) sel) = map (\<lambda>t. (t, x)) sel"
  using foldl_obj_set_distinct [of "[]" sel x] by (simp add: fromEntries_def)

lemma collect_paths_keys:
  "collect_paths ts tp0 s lg = Next tp s' lg' \<Longrightarrow> distinct (map fst tp0 @ ts) \<Longrightarrow>
   map fst tp = map fst tp0 @ ts \<and>
   (\<forall>v \<in> snd ` set tp. v \<in> snd ` set tp0 \<or> (\<exists>path. v = JStr path))"
proof (induction ts arbitrary: tp0 s lg)
  case Nil
  then show ?case by simp
next
  case (Cons t ts)
  from Cons.prems(1) obtain r s1 l1
    where a: "exitOnCancel (text_prompt validate s) lg = Next r s1 l1"
      and b: "collect_paths ts (obj_set tp0 t (js_or (JStr r) (defaultPath t))) s1 l1 = Next tp s' lg'"
    by (auto elim: and_then_NextE)
  from exitOnCancel_NextD [OF a] have "r \<noteq> []" by (auto dest: text_prompt_accepted)
  moreover from Cons.prems(2) have "t \<notin> fst ` set tp0" by auto
  ultimately have eq: "obj_set tp0 t (js_or (JStr r) (defaultPath t)) = tp0 @ [(t, JStr r)]"
    by (simp add: obj_set_new js_or_def)
  from Cons.prems(2) have "distinct (map fst (tp0 @ [(t, JStr r)]) @ ts)" by auto
  from Cons.IH [OF b [unfolded eq] this] show ?case by auto
qed

lemma sync_step_result:
  assumes "sync_step config s lg = Next config' s' lg'" and "''sync'' \<notin> fst ` set config"
  shows "\<exists>sy. config' = config @ [(''sync'', sy)]"
proof -
  from assms(1) obtain m s1 l1
    where a: "exitOnCancel (select sync_options s) lg = Next m s1 l1"
      and b: "(let c1 = (if m = ''all'' then obj_set config ''sync'' (JBool True) else config);
                   c2 = (if m = ''none'' then obj_set c1 ''sync'' (JBool False) else c1)
               in if m = ''groups''
                  then and_then
                    (group_loop [] s1
                       (l1 @ [(LogInfo,
                               ''Create sync groups, each group must contain at least 2 targets'')]))
                    (\<lambda>syncGroups s lg. Next (obj_set c2 ''sync'' (JArr syncGroups)) s lg)
                  else Next c2 s1 l1) = Next config' s' lg'"
    unfolding sync_step_def by (auto elim: and_then_NextE)
  from exitOnCancel_NextD [OF a] have "m \<in> set sync_options" by (auto dest: select_accepted)
  then consider "m = ''all''" | "m = ''none''" | "m = ''groups''"
    by (auto simp: sync_options_def)
  then show ?thesis
  proof cases
    case 1
    with b assms(2) show ?thesis by (auto simp: obj_set_new)
  next
    case 2
    with b assms(2) show ?thesis by (auto simp: obj_set_new)
  next
    case 3
    with b have "and_then
                    (group_loop [] s1
                       (l1 @ [(LogInfo,
                               ''Create sync groups, each group must contain at least 2 targets'')]))
                    (\<lambda>syncGroups s lg. Next (obj_set config ''sync'' (JArr syncGroups)) s lg)
                  = Next config' s' lg'"
      by simp
    then show ?thesis using assms(2) by (auto elim!: and_then_NextE simp: obj_set_new)
  qed
qed

lemma configure_result:
  assumes "configure s lg = Next config s' lg'"
  shows "\<exists>release sel tp sy.
           Multi sel \<in> set s \<and> distinct sel \<and> map fst tp = sel \<and>
           (\<forall>v \<in> snd ` set tp. \<exists>path. v = JStr path) \<and>
           config = [(''$schema'', JStr CONFIG_SCHEMA_URL),
                     (''defaultReleaseType'', JStr release),
                     (''targets'', JObj (map (\<lambda>t. (t, JBool True)) sel)),
                     (''targetsPath'', JObj tp),
                     (''sync'', sy)]"
proof -
  from assms obtain release s1 l1 sel s2 l2 tp s3 l3 c4 s4 l4
    where a: "exitOnCancel (select release_options s) (lg @ [(LogInfo, ''Configuring Release Hub'')])
                = Next release s1 l1"
      and b: "exitOnCancel (multiselect target_options s1) l1 = Next sel s2 l2"
      and c: "collect_paths sel [] s2 l2 = Next tp s3 l3"
      and d: "sync_step
                (obj_set
                   (obj_set (obj_set initial_config ''defaultReleaseType'' (JStr release))
                      ''targets'' (JObj (fromEntries (map (\<lambda>t. (t, JBool True)) sel))))
                   ''targetsPath'' (JObj tp)) s3 l3 = Next c4 s4 l4"
      and e: "config = c4"
    unfolding configure_def Let_def by (elim and_then_NextE) auto
  from exitOnCancel_NextD [OF a] have "set s1 \<subseteq> set s"
    by (auto simp: select_def dest: ask_rest_subset)
  moreover from exitOnCancel_NextD [OF b] have sel: "Multi sel \<in> set s1" "distinct sel"
    by (auto dest: multiselect_accepted)
  ultimately have in_s: "Multi sel \<in> set s" by auto
  from collect_paths_keys [OF c] sel(2)
  have tp: "map fst tp = sel" "\<forall>v \<in> snd ` set tp. \<exists>path. v = JStr path" by auto
  have cfg: "obj_set
                   (obj_set (obj_set initial_config ''defaultReleaseType'' (JStr release))
                      ''targets'' (JObj (fromEntries (map (\<lambda>t. (t, JBool True)) sel))))
                   ''targetsPath'' (JObj tp)
             = [(''$schema'', JStr CONFIG_SCHEMA_URL),
                (''defaultReleaseType'', JStr release),
                (''targets'', JObj (map (\<lambda>t. (t, JBool True)) sel)),
                (''targetsPath'', JObj tp)]"
    using sel(2) by (simp add: initial_config_def fromEntries_distinct)
  from sync_step_result [OF d [unfolded cfg]] obtain sy
    where "c4 = [(''$schema'', JStr CONFIG_SCHEMA_URL),
                (''defaultReleaseType'', JStr release),
                (''targets'', JObj (map (\<lambda>t. (t, JBool True)) sel)),
                (''targetsPath'', JObj tp)] @ [(''sync'', sy)]"
    by auto
  with e in_s sel(2) tp show ?thesis by auto
qed

lemma install_step_rest:
  assumes "install_step p s lg = Next u s' lg'"
  shows "set s' \<subseteq> set s"
proof (cases "hasLib p")
  case True
  with assms show ?thesis by (simp add: install_step_def)
next
  case False
  with assms obtain b s1 l1
    where a: "exitOnCancel (confirm s) lg = Next b s1 l1"
      and k: "(if \<not> b then Next () s1 (l1 @ [(LogInfo, ''Skipping installation'')])
              else (case literal_lookup PACKAGE_INSTALL (detectPackageManager p) of
                      Own (cmd, cmdArgs) \<Rightarrow>
                        (case spawnAsync p cmd cmdArgs of
                           Inl e \<Rightarrow> Thrown e l1
                         | Inr u \<Rightarrow> Next () s1 l1)
                    | Inherited \<Rightarrow> Thrown not_iterable l1
                    | Undefined \<Rightarrow> Thrown not_iterable l1)) = Next u s' lg'"
    unfolding install_step_def Let_def by (auto elim: and_then_NextE)
  from exitOnCancel_NextD [OF a] have "set s1 \<subseteq> set s"
    by (auto simp: confirm_def dest: ask_rest_subset)
  moreover from k have "s' = s1"
    by (auto split: if_splits lookup.splits sum.splits)
  ultimately show ?thesis by simp
qed

text \<open>
  Claim C8. Whenever a run writes the configuration file, the written object has a
  \<open>targets\<close> object and a \<open>targetsPath\<close> object whose key lists are both the list of
  targets the user selected at the target prompt, in the order of the selection, and
  every value of \<open>targetsPath\<close> is a string. Nothing is assumed about the selection, so
  the empty one is included.
\<close>

theorem written_targetsPath_keys:
  assumes "main p script = Exited status lg (Some written)"
  shows "\<exists>sel ts tp.
           Multi sel \<in> set script \<and>
           member written ''targets'' = Some (JObj ts) \<and>
           member written ''targetsPath'' = Some (JObj tp) \<and>
           map fst ts = sel \<and> map fst tp = sel \<and>
           (\<forall>v \<in> snd ` set tp. \<exists>path. v = JStr path)"
proof -
  from assms obtain s' where t: "try_block p script [] = Next written s' lg"
    by (auto simp: main_def split: flow.splits)
  then have nc: "\<not> hasConfig p" by (auto simp: try_block_def split: if_splits)
  with t obtain u s1 l1 config s2 l2
    where i: "install_step p script [] = Next u s1 l1"
      and c: "configure s1 l1 = Next config s2 l2"
      and w: "(case write_error p of Some m \<Rightarrow> Thrown (Error m) l2
               | None \<Rightarrow> Next (JObj config) s2 l2) = Next written s' lg"
    unfolding try_block_def by (auto elim!: and_then_NextE)
  from w have written: "written = JObj config" by (auto split: option.splits)
  from configure_result [OF c] obtain release sel tp sy
    where r: "Multi sel \<in> set s1" "distinct sel" "map fst tp = sel"
             "\<forall>v \<in> snd ` set tp. \<exists>path. v = JStr path"
             "config = [(''$schema'', JStr CONFIG_SCHEMA_URL),
                     (''defaultReleaseType'', JStr release),
                     (''targets'', JObj (map (\<lambda>t. (t, JBool True)) sel)),
                     (''targetsPath'', JObj tp),
                     (''sync'', sy)]"
    by blast
  from r(1) install_step_rest [OF i] have "Multi sel \<in> set script" by auto
  moreover from written r(5)
  have "member written ''targets'' = Some (JObj (map (\<lambda>t. (t, JBool True)) sel))"
    and "member written ''targetsPath'' = Some (JObj tp)"
    by simp_all
  moreover have "map fst (map (\<lambda>t. (t, JBool True)) sel) = sel" by (simp add: comp_def)
  ultimately show ?thesis using r(3,4) by blast
qed

text \<open>
  Instances of C8, with the library installed: the empty selection gives two empty
  objects; the selection deno, node gives the keys deno, node in both objects.
\<close>

theorem written_targetsPath_keys_witness:
  "main (bare_project\<lparr>manifest :=
           Some (JObj [(''dependencies'', JObj [(''release-hub'', JStr ''1.2.3'')])])\<rparr>)
     [Select ''patch'', Multi [], Select ''none''] =
   Exited 0 [(LogInfo, ''Configuring Release Hub''), (LogSuccess, ''Configuration complete'')]
     (Some (JObj
        [(''$schema'', JStr CONFIG_SCHEMA_URL),
         (''defaultReleaseType'', JStr ''patch''),
         (''targets'', JObj []),
         (''targetsPath'', JObj []),
         (''sync'', JBool False)])) \<and>
   main (bare_project\<lparr>manifest :=
           Some (JObj [(''dependencies'', JObj [(''release-hub'', JStr ''1.2.3'')])])\<rparr>)
     [Select ''minor'', Multi [''deno'', ''node''], Text ''./deno.json'', Text ''../package.json'',
      Select ''all''] =
   Exited 0 [(LogInfo, ''Configuring Release Hub''), (LogSuccess, ''Configuration complete'')]
     (Some (JObj
        [(''$schema'', JStr CONFIG_SCHEMA_URL),
         (''defaultReleaseType'', JStr ''minor''),
         (''targets'', JObj [(''deno'', JBool True), (''node'', JBool True)]),
         (''targetsPath'', JObj [(''deno'', JStr ''./deno.json''), (''node'', JStr ''../package.json'')]),
         (''sync'', JBool True)])) \<and>
   (\<exists>sel ts tp.
      Multi sel \<in> set [Select ''minor'', Multi [''deno'', ''node''], Text ''./deno.json'',
                        Text ''../package.json'', Select ''all''] \<and>
      member (JObj
        [(''$schema'', JStr CONFIG_SCHEMA_URL),
         (''defaultReleaseType'', JStr ''minor''),
         (''targets'', JObj [(''deno'', JBool True), (''node'', JBool True)]),
         (''targetsPath'', JObj [(''deno'', JStr ''./deno.json''), (''node'', JStr ''../package.json'')]),
         (''sync'', JBool True)]) ''targets'' = Some (JObj ts) \<and>
      member (JObj
        [(''$schema'', JStr CONFIG_SCHEMA_URL),
         (''defaultReleaseType'', JStr ''minor''),
         (''targets'', JObj [(''deno'', JBool True), (''node'', JBool True)]),
         (''targetsPath'', JObj [(''deno'', JStr ''./deno.json''), (''node'', JStr ''../package.json'')]),
         (''sync'', JBool True)]) ''targetsPath'' = Some (JObj tp) \<and>
      map fst ts = sel \<and> map fst tp = sel \<and>
      (\<forall>v \<in> snd ` set tp. \<exists>path. v = JStr path))"
proof -
  have empty: "main (bare_project\<lparr>manifest :=
           Some (JObj [(''dependencies'', JObj [(''release-hub'', JStr ''1.2.3'')])])\<rparr>)
     [Select ''patch'', Multi [], Select ''none''] =
   Exited 0 [(LogInfo, ''Configuring Release Hub''), (LogSuccess, ''Configuration complete'')]
     (Some (JObj
        [(''$schema'', JStr CONFIG_SCHEMA_URL),
         (''defaultReleaseType'', JStr ''patch''),
         (''targets'', JObj []),
         (''targetsPath'', JObj []),
         (''sync'', JBool False)]))"
    by (simp add: run_defs hasConfig_def hasLib_def opt_member_def NAME_def bare_project_def)
  have run: "main (bare_project\<lparr>manifest :=
           Some (JObj [(''dependencies'', JObj [(''release-hub'', JStr ''1.2.3'')])])\<rparr>)
     [Select ''minor'', Multi [''deno'', ''node''], Text ''./deno.json'', Text ''../package.json'',
      Select ''all''] =
   Exited 0 [(LogInfo, ''Configuring Release Hub''), (LogSuccess, ''Configuration complete'')]
     (Some (JObj
        [(''$schema'', JStr CONFIG_SCHEMA_URL),
         (''defaultReleaseType'', JStr ''minor''),
         (''targets'', JObj [(''deno'', JBool True), (''node'', JBool True)]),
         (''targetsPath'', JObj [(''deno'', JStr ''./deno.json''), (''node'', JStr ''../package.json'')]),
         (''sync'', JBool True)]))"
    by (simp add: run_defs hasConfig_def hasLib_def opt_member_def NAME_def bare_project_def)
  from written_targetsPath_keys [OF run] empty run show ?thesis by blast
qed

section \<open>A declared manager without an install command\<close>

text \<open>
  Claim C10 as stated fails in one conjunct: with no lockfile, the library not installed
  and a manifest declaring \<open>toString@1.0.0\<close>, the detected name \<open>toString\<close> is none of
  npm, yarn, pnpm, bun, yet \<open>PACKAGE_INSTALL[pm]\<close> is not \<open>undefined\<close>: it is the function
  inherited from \<open>Object.prototype\<close>.
\<close>

theorem inherited_member_counterexample:
  "files (bare_project\<lparr>manifest :=
            Some (JObj [(''packageManager'', JStr ''toString@1.0.0'')])\<rparr>) = {} \<and>
   \<not> hasLib (bare_project\<lparr>manifest :=
            Some (JObj [(''packageManager'', JStr ''toString@1.0.0'')])\<rparr>) \<and>
   detectPackageManager (bare_project\<lparr>manifest :=
            Some (JObj [(''packageManager'', JStr ''toString@1.0.0'')])\<rparr>) = ''toString'' \<and>
   ''toString'' \<notin> {''npm'', ''yarn'', ''pnpm'', ''bun''} \<and>
   literal_lookup PACKAGE_INSTALL
     (detectPackageManager (bare_project\<lparr>manifest :=
            Some (JObj [(''packageManager'', JStr ''toString@1.0.0'')])\<rparr>)) \<noteq> Undefined"
  by (simp add: detectPackageManager_def exists_file_def bare_project_def
                manifest_packageManager_def before_at_def hasLib_def opt_member_def js_or_def
                literal_lookup_def PACKAGE_INSTALL_def object_prototype_names_def)

lemma literal_lookup_not_own:
  "k \<notin> {''npm'', ''yarn'', ''pnpm'', ''bun''} \<Longrightarrow>
   literal_lookup PACKAGE_INSTALL k = Inherited \<or> literal_lookup PACKAGE_INSTALL k = Undefined"
  by (simp add: literal_lookup_def PACKAGE_INSTALL_def)

text \<open>
  Claim C10, amended. Suppose no release configuration exists yet, the library is not
  installed, none of the five lockfiles is present, the manifest declares a manager whose
  name (the part before \<open>@\<close>) is none of npm, yarn, pnpm, bun, and the user confirms the
  installation. Then \<open>detectPackageManager\<close> returns that name,
  \<open>PACKAGE_INSTALL[pm]\<close> is \<open>undefined\<close> or a member inherited from \<open>Object.prototype\<close>,
  destructuring it throws, and the run ends in the top-level \<open>catch\<close> with that one
  error logged and no configuration file written.
\<close>

theorem unknown_manager_install_aborts:
  assumes "\<not> hasConfig p" and "\<not> hasLib p"
    and "\<forall>file \<in> fst ` set lockfile_order. file \<notin> files p"
    and "declared_manager (manifest p) = Some s"
    and "before_at s \<notin> {''npm'', ''yarn'', ''pnpm'', ''bun''}"
    and "confirm script = Some (Answered True, rest)"
  shows "detectPackageManager p = before_at s \<and>
         (literal_lookup PACKAGE_INSTALL (detectPackageManager p) = Undefined \<or>
          literal_lookup PACKAGE_INSTALL (detectPackageManager p) = Inherited) \<and>
         main p script = Exited 0 [(LogError, message not_iterable)] None"
proof -
  from detectPackageManager_no_lockfile [OF assms(3)] assms(4)
  have pm: "detectPackageManager p = before_at s"
    by (simp add: manifest_packageManager_declared)
  from literal_lookup_not_own [OF assms(5)]
  have lk: "literal_lookup PACKAGE_INSTALL (before_at s) = Undefined \<or>
            literal_lookup PACKAGE_INSTALL (before_at s) = Inherited"
    by blast
  then have "install_step p script [] = Thrown not_iterable []"
    using assms(2,6) pm by (auto simp: install_step_def and_then_def exitOnCancel_def)
  with assms(1) have "main p script = Exited 0 [(LogError, message not_iterable)] None"
    by (simp add: main_def try_block_def and_then_def not_iterable_def)
  with pm lk show ?thesis by simp
qed

text \<open>
  An instance of the amended C10: an empty directory whose manifest declares
  \<open>foo@1.0.0\<close>, and a user who confirms the installation.
\<close>

theorem unknown_manager_install_aborts_witness:
  "detectPackageManager
     (bare_project\<lparr>manifest := Some (JObj [(''packageManager'', JStr ''foo@1.0.0'')])\<rparr>) = ''foo'' \<and>
   literal_lookup PACKAGE_INSTALL ''foo'' = Undefined \<and>
   main (bare_project\<lparr>manifest := Some (JObj [(''packageManager'', JStr ''foo@1.0.0'')])\<rparr>)
        [Confirm True] =
     Exited 0 [(LogError, ''PACKAGE_INSTALL[pm] is not iterable'')] None"
  using unknown_manager_install_aborts
          [of "bare_project\<lparr>manifest := Some (JObj [(''packageManager'', JStr ''foo@1.0.0'')])\<rparr>"
              "''foo@1.0.0''" "[Confirm True]" "[]"]
  by (simp add: hasConfig_def hasLib_def opt_member_def js_or_def bare_project_def
                lockfile_order_def declared_manager_def before_at_def confirm_def
                not_iterable_def literal_lookup_def PACKAGE_INSTALL_def
                object_prototype_names_def)

end
